theory Spec2Isabelle
  imports Complex_Main
begin

section \<open>Sleep tracking service (sleep.py): data model\<close>

text \<open>
  The service is a set of HTTP handlers over four SQL tables. Each handler opens its own
  connection, so the only state is the database: a handler is a function from the database
  to a result and the committed database. Python floats are idealised as exact rationals.
\<close>

subsection \<open>Request bodies (the pydantic models)\<close>

record SleepLog =
  sleep_time :: string
  wake_time :: string
  duration :: rat

record SleepGoal =
  year :: int
  month :: int
  hours_per_night :: rat

subsection \<open>Tables\<close>

text \<open>
  Modelled from the spec: the table schema (\<open>init_db\<close>) is not in the source. The spec gives
  a sleep log the columns id (auto), sleep_time, wake_time, duration in this order (the
  handlers read them as columns 1, 2, 3 of the fetched row), a history row the three
  copied columns, a recommendation the columns id (auto), recommendation, and a
  recommendation-history row the copied text.
\<close>

record sleep_logs_row =
  col_id :: int
  col_sleep_time :: string
  col_wake_time :: string
  col_duration :: rat

record history_row =
  hist_sleep_time :: string
  hist_wake_time :: string
  hist_duration :: rat

record recommendation_row =
  rec_id :: int
  rec_text :: string

record db =
  sleep_logs :: "sleep_logs_row list"
  history :: "history_row list"
  sleep_recommendations :: "recommendation_row list"
  recommendation_history :: "string list"

text \<open>
  Modelled from the spec: "id (auto)". The store gives an inserted row an id above every id
  of the table.
\<close>

definition next_id :: "int list \<Rightarrow> int" where
  "next_id ids = fold max ids 0 + 1"

subsection \<open>Results: JSON values and exceptions\<close>

datatype json =
  JNull
  | JInt int
  | JNum rat
  | JStr string
  | JList "json list"
  | JObj "(string \<times> json) list"

text \<open>
  The exceptions the handlers can raise. The detail of an \<open>HTTPException\<close> is a literal
  text, \<open>str(e)\<close> of a caught exception, or \<open>f"Error: {e}"\<close>; the text of \<open>str(e)\<close> belongs to
  the runtime and is kept symbolic.
\<close>

datatype exc =
  ValueError
  | TypeError
  | OverflowError
  | HTTPException nat detail
and detail =
  Text string
  | Str exc
  | ErrorStr exc

type_synonym result = "exc + json"

text \<open>
  The status the framework answers with: a returned value is 200, an \<open>HTTPException\<close> carries
  its own status, any other exception leaving the handler is a 500 server error.
\<close>

fun status_code :: "result \<Rightarrow> nat" where
  "status_code (Inr _) = 200"
| "status_code (Inl (HTTPException c _)) = c"
| "status_code (Inl _) = 500"

definition client_error :: "result \<Rightarrow> bool" where
  "client_error r = (400 \<le> status_code r \<and> status_code r < 500)"

text \<open>
  \<open>except Exception as e: connection.rollback(); raise HTTPException(500, detail)\<close>:
  every exception of the body, an \<open>HTTPException\<close> included, becomes a 500. The database
  paired with the result is the committed one, so the rollback is already in it.
\<close>

definition except_500 :: "(exc \<Rightarrow> detail) \<Rightarrow> result \<times> db \<Rightarrow> result \<times> db" where
  "except_500 f r =
     (case fst r of
        Inl e \<Rightarrow> (Inl (HTTPException 500 (f e)), snd r)
      | Inr j \<Rightarrow> (Inr j, snd r))"

definition message :: "string \<Rightarrow> json" where
  "message s = JObj [(''message'', JStr s)]"

definition dict_log :: "sleep_logs_row \<Rightarrow> json" where
  "dict_log r = JObj [(''id'', JInt (col_id r)), (''sleep_time'', JStr (col_sleep_time r)),
     (''wake_time'', JStr (col_wake_time r)), (''duration'', JNum (col_duration r))]"

subsection \<open>datetime\<close>

text \<open>
  The part of Python's \<open>datetime\<close> the handlers use, at the resolution of a minute (the
  format has no seconds): the proleptic Gregorian ordinal of a date and its inverse, the
  constructor's range check, the difference of two values and the subtraction of days.
\<close>

record datetime =
  dt_year :: int
  dt_month :: int
  dt_day :: int
  dt_hour :: int
  dt_minute :: int

definition is_leap :: "int \<Rightarrow> bool" where
  "is_leap y = (y mod 4 = 0 \<and> (y mod 100 \<noteq> 0 \<or> y mod 400 = 0))"

definition DAYS_IN_MONTH :: "int list" where
  "DAYS_IN_MONTH = [-1, 31, 28, 31, 30, 31, 30, 31, 31, 30, 31, 30, 31]"

definition DAYS_BEFORE_MONTH :: "int list" where
  "DAYS_BEFORE_MONTH = [-1, 0, 31, 59, 90, 120, 151, 181, 212, 243, 273, 304, 334]"

definition days_in_month :: "int \<Rightarrow> int \<Rightarrow> int" where
  "days_in_month y m = (if m = 2 \<and> is_leap y then 29 else DAYS_IN_MONTH ! nat m)"

definition days_before_year :: "int \<Rightarrow> int" where
  "days_before_year y = (y - 1) * 365 + (y - 1) div 4 - (y - 1) div 100 + (y - 1) div 400"

definition days_before_month :: "int \<Rightarrow> int \<Rightarrow> int" where
  "days_before_month y m = DAYS_BEFORE_MONTH ! nat m + (if m > 2 \<and> is_leap y then 1 else 0)"

definition ymd2ord :: "int \<Rightarrow> int \<Rightarrow> int \<Rightarrow> int" where
  "ymd2ord y m d = days_before_year y + days_before_month y m + d"

definition ord2ymd :: "int \<Rightarrow> int \<times> int \<times> int" where
  "ord2ymd n0 =
     (let n = n0 - 1;
          n400 = n div 146097; n = n mod 146097;
          n100 = n div 36524; n = n mod 36524;
          n4 = n div 1461; n = n mod 1461;
          n1 = n div 365; n = n mod 365;
          y = n400 * 400 + 1 + n100 * 100 + n4 * 4 + n1
      in if n1 = 4 \<or> n100 = 4 then (y - 1, 12, 31)
         else
           let leapyear = (n1 = 3 \<and> (n4 \<noteq> 24 \<or> n100 = 3));
               m = (n + 50) div 32;
               preceding = DAYS_BEFORE_MONTH ! nat m + (if m > 2 \<and> leapyear then 1 else 0)
           in if preceding > n
              then (y, m - 1, n - (preceding - (DAYS_IN_MONTH ! nat (m - 1)
                                     + (if m - 1 = 2 \<and> leapyear then 1 else 0))) + 1)
              else (y, m, n - preceding + 1))"

definition MAXORDINAL :: int where
  "MAXORDINAL = 3652059"

text \<open>\<open>datetime(year, month, day)\<close>: ValueError outside the supported range.\<close>

definition datetime_new :: "int \<Rightarrow> int \<Rightarrow> int \<Rightarrow> exc + datetime" where
  "datetime_new y m d =
     (if \<not> (1 \<le> y \<and> y \<le> 9999) then Inl ValueError
      else if \<not> (1 \<le> m \<and> m \<le> 12) then Inl ValueError
      else if \<not> (1 \<le> d \<and> d \<le> days_in_month y m) then Inl ValueError
      else Inr \<lparr>dt_year = y, dt_month = m, dt_day = d, dt_hour = 0, dt_minute = 0\<rparr>)"

definition toordinal :: "datetime \<Rightarrow> int" where
  "toordinal t = ymd2ord (dt_year t) (dt_month t) (dt_day t)"

text \<open>\<open>t - timedelta(days=k)\<close>: OverflowError when the result leaves the supported range.\<close>

definition sub_days :: "datetime \<Rightarrow> int \<Rightarrow> exc + datetime" where
  "sub_days t k =
     (let days = toordinal t - k
      in if 0 < days \<and> days \<le> MAXORDINAL
         then (case ord2ymd days of (y, m, d) \<Rightarrow>
                 Inr \<lparr>dt_year = y, dt_month = m, dt_day = d,
                      dt_hour = dt_hour t, dt_minute = dt_minute t\<rparr>)
         else Inl OverflowError)"

text \<open>\<open>(w - s).total_seconds() / 3600\<close>, from the minutes between the two values.\<close>

definition minutes_of :: "datetime \<Rightarrow> int" where
  "minutes_of t = toordinal t * 1440 + dt_hour t * 60 + dt_minute t"

definition hours_between :: "datetime \<Rightarrow> datetime \<Rightarrow> rat" where
  "hours_between s w = of_int (minutes_of w - minutes_of s) / 60"

text \<open>
  \<open>datetime.strptime(text, '%Y-%m-%d %H:%M')\<close> is the library's parser. The handlers take it
  as the parameter \<open>strptime\<close>: \<open>None\<close> is the ValueError of a text that does not parse.
\<close>

type_synonym parser = "string \<Rightarrow> datetime option"

subsection \<open>The SQL operator LIKE\<close>

text \<open>
  The engine's \<open>LIKE\<close>, with no escape character: \<open>%\<close> matches any run of characters,
  \<open>_\<close> any single character, and any other character matches itself, upper and lower
  case ASCII letters alike.
\<close>

definition lower :: "char \<Rightarrow> char" where
  "lower c =
     (let n = (of_char c :: nat) in if 65 \<le> n \<and> n \<le> 90 then char_of (n + 32) else c)"

fun like :: "string \<Rightarrow> string \<Rightarrow> bool" where
  "like [] s = (s = [])"
| "like (c # p) [] = (c = CHR ''%'' \<and> like p [])"
| "like (c # p) (x # s) =
     (if c = CHR ''%'' then like p (x # s) \<or> like (c # p) s
      else if c = CHR ''_'' then like p s
      else lower c = lower x \<and> like p s)"

section \<open>Sleep log handlers\<close>

text \<open>
  \<open>add_sleep_log\<close>: both timestamps are parsed before the \<open>try\<close>, so a text that does not
  parse leaves the handler as a bare ValueError. The duration of the request body is
  not read. Failures of the store itself (the \<open>except\<close> around the INSERT) are outside
  the model: an INSERT always succeeds.
\<close>

definition add_sleep_log :: "parser \<Rightarrow> SleepLog \<Rightarrow> db \<Rightarrow> result \<times> db" where
  "add_sleep_log strptime lg d =
     (case strptime (sleep_time lg) of
        None \<Rightarrow> (Inl ValueError, d)
      | Some s \<Rightarrow>
          (case strptime (wake_time lg) of
             None \<Rightarrow> (Inl ValueError, d)
           | Some w \<Rightarrow>
               (Inr (message ''Sleep log added successfully!''),
                d\<lparr>sleep_logs := sleep_logs d @
                     [\<lparr>col_id = next_id (map col_id (sleep_logs d)),
                       col_sleep_time = sleep_time lg,
                       col_wake_time = wake_time lg,
                       col_duration = hours_between s w\<rparr>]\<rparr>)))"

definition get_all_sleep_logs :: "db \<Rightarrow> result" where
  "get_all_sleep_logs d = Inr (JList (map dict_log (sleep_logs d)))"

text \<open>\<open>SELECT * FROM sleep_logs WHERE sleep_time LIKE ?\<close> with the pattern \<open>f"{date}%"\<close>.\<close>

definition select_by_date :: "string \<Rightarrow> db \<Rightarrow> sleep_logs_row list" where
  "select_by_date date d = filter (\<lambda>r. like (date @ ''%'') (col_sleep_time r)) (sleep_logs d)"

definition get_sleep_logs_by_date :: "string \<Rightarrow> db \<Rightarrow> result" where
  "get_sleep_logs_by_date date d = Inr (JList (map dict_log (select_by_date date d)))"

text \<open>
  \<open>update_sleep_log\<close>: the 404 of a missing id and the ValueError of a timestamp are both
  raised inside the \<open>try\<close>, so \<open>except Exception\<close> turns them into a 500.
\<close>

definition update_sleep_log_body :: "parser \<Rightarrow> int \<Rightarrow> SleepLog \<Rightarrow> db \<Rightarrow> result \<times> db" where
  "update_sleep_log_body strptime log_id lg d =
     (if find (\<lambda>r. col_id r = log_id) (sleep_logs d) = None
      then (Inl (HTTPException 404 (Text ''Sleep log not found'')), d)
      else
        (case strptime (sleep_time lg) of
           None \<Rightarrow> (Inl ValueError, d)
         | Some s \<Rightarrow>
             (case strptime (wake_time lg) of
                None \<Rightarrow> (Inl ValueError, d)
              | Some w \<Rightarrow>
                  (Inr (message ''Sleep log updated successfully!''),
                   d\<lparr>sleep_logs :=
                       map (\<lambda>r. if col_id r = log_id
                                 then r\<lparr>col_sleep_time := sleep_time lg,
                                        col_wake_time := wake_time lg,
                                        col_duration := hours_between s w\<rparr>
                                 else r) (sleep_logs d)\<rparr>))))"

definition update_sleep_log :: "parser \<Rightarrow> int \<Rightarrow> SleepLog \<Rightarrow> db \<Rightarrow> result \<times> db" where
  "update_sleep_log strptime log_id lg d =
     except_500 Str (update_sleep_log_body strptime log_id lg d)"

text \<open>
  \<open>delete_sleep_log\<close>: the row is fetched, its columns 1 to 3 are read for the history
  INSERT (a TypeError when \<open>fetchone\<close> gave \<open>None\<close>), the row is deleted, the
  transaction is committed, and only then is the row count compared with 0.
\<close>

definition delete_sleep_log_body :: "int \<Rightarrow> db \<Rightarrow> result \<times> db" where
  "delete_sleep_log_body log_id d =
     (case find (\<lambda>r. col_id r = log_id) (sleep_logs d) of
        None \<Rightarrow> (Inl TypeError, d)
      | Some h \<Rightarrow>
          (let d1 = d\<lparr>history := history d @
                      [\<lparr>hist_sleep_time = col_sleep_time h,
                        hist_wake_time = col_wake_time h,
                        hist_duration = col_duration h\<rparr>]\<rparr>;
               rowcount = length (filter (\<lambda>r. col_id r = log_id) (sleep_logs d1));
               d2 = d1\<lparr>sleep_logs := filter (\<lambda>r. col_id r \<noteq> log_id) (sleep_logs d1)\<rparr>
           in if rowcount = 0
              then (Inl (HTTPException 404 (Text ''Sleep log not found'')), d2)
              else (Inr (message ''Sleep log deleted successfully!''), d2)))"

definition delete_sleep_log :: "int \<Rightarrow> db \<Rightarrow> result \<times> db" where
  "delete_sleep_log log_id d = except_500 Str (delete_sleep_log_body log_id d)"

subsection \<open>Aggregates\<close>

text \<open>
  \<open>AVG\<close>, \<open>MAX\<close> and \<open>MIN\<close> over no rows are NULL, and \<open>x or 0\<close> turns NULL (and 0.0)
  into the integer 0.
\<close>

definition or_0 :: "rat option \<Rightarrow> json" where
  "or_0 v = (case v of None \<Rightarrow> JInt 0 | Some x \<Rightarrow> if x = 0 then JInt 0 else JNum x)"

definition sql_avg :: "rat list \<Rightarrow> rat option" where
  "sql_avg xs = (if xs = [] then None else Some (sum_list xs / of_nat (length xs)))"

definition sql_sum :: "rat list \<Rightarrow> rat option" where
  "sql_sum xs = (if xs = [] then None else Some (sum_list xs))"

definition sql_max :: "rat list \<Rightarrow> rat option" where
  "sql_max xs = (case xs of [] \<Rightarrow> None | x # ys \<Rightarrow> Some (fold max ys x))"

definition sql_min :: "rat list \<Rightarrow> rat option" where
  "sql_min xs = (case xs of [] \<Rightarrow> None | x # ys \<Rightarrow> Some (fold min ys x))"

definition get_average_sleep_duration :: "db \<Rightarrow> result" where
  "get_average_sleep_duration d =
     Inr (JObj [(''average_sleep_duration'', or_0 (sql_avg (map col_duration (sleep_logs d))))])"

definition get_longest_sleep_duration :: "db \<Rightarrow> result" where
  "get_longest_sleep_duration d =
     Inr (JObj [(''longest_sleep_duration'', or_0 (sql_max (map col_duration (sleep_logs d))))])"

definition get_shortest_sleep_duration :: "db \<Rightarrow> result" where
  "get_shortest_sleep_duration d =
     Inr (JObj [(''shortest_sleep_duration'', or_0 (sql_min (map col_duration (sleep_logs d))))])"

text \<open>
  The engine's \<open>strftime(format, text)\<close> is the parameter \<open>strftime\<close> of the handlers that
  use it: \<open>None\<close> is NULL, the result for a text the engine does not read as a time.
\<close>

type_synonym sql_strftime = "string \<Rightarrow> string \<Rightarrow> string option"

text \<open>
  \<open>SELECT strftime('%H', col) as hour, COUNT(*) as count ... GROUP BY hour
  ORDER BY count DESC LIMIT 1\<close>: one group per hour value (NULL is a group), the
  largest count first. The engine does not fix the order of groups of equal count; the
  model takes the one whose hour appears first in the table.
\<close>

definition group_count :: "string option list \<Rightarrow> (string option \<times> nat) list" where
  "group_count ks = map (\<lambda>k. (k, count_list ks k)) (rev (remdups (rev ks)))"

fun top_group :: "(string option \<times> nat) list \<Rightarrow> (string option \<times> nat) option" where
  "top_group [] = None"
| "top_group (g # gs) =
     (case top_group gs of
        None \<Rightarrow> Some g
      | Some b \<Rightarrow> if snd b > snd g then Some b else Some g)"

definition json_text :: "string option \<Rightarrow> json" where
  "json_text v = (case v of None \<Rightarrow> JNull | Some s \<Rightarrow> JStr s)"

text \<open>
  \<open>frequent_time["hour"]\<close> on the \<open>None\<close> that \<open>fetchone\<close> gives for no row is a TypeError;
  the handler has a \<open>finally\<close> and no \<open>except\<close>, so the exception leaves it.
\<close>

definition get_frequent_sleep_time :: "sql_strftime \<Rightarrow> db \<Rightarrow> result" where
  "get_frequent_sleep_time strftime d =
     (case top_group (group_count (map (\<lambda>r. strftime ''%H'' (col_sleep_time r)) (sleep_logs d))) of
        None \<Rightarrow> Inl TypeError
      | Some g \<Rightarrow> Inr (JObj [(''frequent_sleep_hour'', json_text (fst g)),
                             (''count'', JInt (int (snd g)))]))"

definition get_frequent_wake_time :: "sql_strftime \<Rightarrow> db \<Rightarrow> result" where
  "get_frequent_wake_time strftime d =
     (case top_group (group_count (map (\<lambda>r. strftime ''%H'' (col_wake_time r)) (sleep_logs d))) of
        None \<Rightarrow> Inl TypeError
      | Some g \<Rightarrow> Inr (JObj [(''frequent_wake_hour'', json_text (fst g)),
                             (''count'', JInt (int (snd g)))]))"

subsection \<open>Formatting numbers\<close>

definition digit_char :: "nat \<Rightarrow> char" where
  "digit_char n = ''0123456789'' ! (n mod 10)"

fun digits :: "nat \<Rightarrow> string" where
  "digits n = (if n < 10 then [digit_char n] else digits (n div 10) @ [digit_char (n mod 10)])"

declare digits.simps [simp del]

text \<open>\<open>str(i)\<close> of an integer.\<close>

definition str_int :: "int \<Rightarrow> string" where
  "str_int i = (if i < 0 then ''-'' @ digits (nat (- i)) else digits (nat i))"

text \<open>\<open>f"{i:02d}"\<close>: padded with zeros to two characters, the sign counted.\<close>

definition fmt_02d :: "int \<Rightarrow> string" where
  "fmt_02d i = (if 0 \<le> i \<and> i < 10 then ''0'' @ str_int i else str_int i)"

definition round_half_even :: "rat \<Rightarrow> int" where
  "round_half_even q =
     (let f = \<lfloor>q\<rfloor>; r = q - of_int f
      in if r < 1 / 2 then f else if r > 1 / 2 then f + 1 else if even f then f else f + 1)"

text \<open>
  \<open>f"{x:.2f}"\<close>: the value rounded to hundredths, written with its integer part, a point
  and two digits.
\<close>

definition fmt_2f :: "rat \<Rightarrow> string" where
  "fmt_2f x =
     (let n = nat (round_half_even (\<bar>x\<bar> * 100))
      in (if x < 0 then ''-'' else []) @ digits (n div 100) @ ''.''
         @ [digit_char (n div 10), digit_char n])"

fun frac_digits :: "nat \<Rightarrow> rat \<Rightarrow> string" where
  "frac_digits 0 r = []"
| "frac_digits (Suc k) r =
     (if r = 0 then []
      else digit_char (nat \<lfloor>r * 10\<rfloor>) # frac_digits k (r * 10 - of_int \<lfloor>r * 10\<rfloor>))"

text \<open>
  \<open>f"{x}"\<close> of a float: Python writes the shortest decimal that reads back as the same
  float, with at least one digit after the point. For the exact value of the model this
  is its decimal expansion, cut at 17 digits after the point; the exponent form of very
  large and very small values is not modelled.
\<close>

definition float_repr :: "rat \<Rightarrow> string" where
  "float_repr x =
     (let i = \<lfloor>\<bar>x\<bar>\<rfloor>; fs = frac_digits 17 (\<bar>x\<bar> - of_int i)
      in (if x < 0 then ''-'' else []) @ digits (nat i) @ ''.''
         @ (if fs = [] then ''0'' else fs))"

section \<open>Monthly goal\<close>

text \<open>
  \<open>(datetime(goal.year, goal.month + 1, 1) - timedelta(days=1)).day\<close>: the first day of
  month + 1 of the same year, less one day.
\<close>

definition goal_days_in_month :: "int \<Rightarrow> int \<Rightarrow> exc + int" where
  "goal_days_in_month y m =
     (case datetime_new y (m + 1) 1 of
        Inl e \<Rightarrow> Inl e
      | Inr t \<Rightarrow> (case sub_days t 1 of Inl e \<Rightarrow> Inl e | Inr t' \<Rightarrow> Inr (dt_day t')))"

definition or_0_value :: "rat option \<Rightarrow> rat" where
  "or_0_value v = (case v of None \<Rightarrow> 0 | Some x \<Rightarrow> x)"

definition logged_in_month :: "sql_strftime \<Rightarrow> int \<Rightarrow> int \<Rightarrow> db \<Rightarrow> sleep_logs_row list" where
  "logged_in_month strftime y m d =
     filter (\<lambda>r. strftime ''%Y'' (col_sleep_time r) = Some (str_int y)
                \<and> strftime ''%m'' (col_sleep_time r) = Some (fmt_02d m)) (sleep_logs d)"

definition achieved_message :: "rat \<Rightarrow> string" where
  "achieved_message hours =
     ''You achieved your goal of sleeping '' @ float_repr hours @ '' hours a day this month!''"

definition shortfall_message :: "rat \<Rightarrow> rat \<Rightarrow> string" where
  "shortfall_message total_hours_required total_logged_sleep =
     ''You didn't sleep well this month. Your goal was to sleep ''
     @ float_repr total_hours_required @ '' hours, but you only logged ''
     @ fmt_2f total_logged_sleep @ '' hours.''"

text \<open>
  \<open>set_monthly_sleep_goal\<close> has no \<open>try\<close>: an exception of the date computation leaves
  the handler. Nothing is written to the database.
\<close>

definition set_monthly_sleep_goal :: "sql_strftime \<Rightarrow> SleepGoal \<Rightarrow> db \<Rightarrow> result" where
  "set_monthly_sleep_goal strftime goal d =
     (case goal_days_in_month (year goal) (month goal) of
        Inl e \<Rightarrow> Inl e
      | Inr days \<Rightarrow>
          (let total_hours_required = hours_per_night goal * of_int days;
               total = sql_sum (map col_duration
                         (logged_in_month strftime (year goal) (month goal) d));
               total_logged_sleep = or_0_value total
           in Inr (JObj
                [(''message'', JStr
                    (if total_logged_sleep \<ge> total_hours_required
                     then achieved_message (hours_per_night goal)
                     else shortfall_message total_hours_required total_logged_sleep)),
                 (''total_logged_sleep'', or_0 total),
                 (''total_required_sleep'', JNum total_hours_required)])))"

section \<open>Recommendation handlers\<close>

definition add_recommendations :: "string \<Rightarrow> db \<Rightarrow> result \<times> db" where
  "add_recommendations recommendation d =
     (Inr (message ''Recommendation added successfully''),
      d\<lparr>sleep_recommendations := sleep_recommendations d @
           [\<lparr>rec_id = next_id (map rec_id (sleep_recommendations d)),
             rec_text = recommendation\<rparr>]\<rparr>)"

text \<open>
  \<open>update_recommendation\<close>: the UPDATE runs first and the 404 for a row count of 0 is
  raised inside the \<open>try\<close>, before the commit.
\<close>

definition update_recommendation_body :: "int \<Rightarrow> string \<Rightarrow> db \<Rightarrow> result \<times> db" where
  "update_recommendation_body recommendation_id new_recommendation d =
     (let rowcount = length (filter (\<lambda>r. rec_id r = recommendation_id) (sleep_recommendations d));
          d1 = d\<lparr>sleep_recommendations :=
                  map (\<lambda>r. if rec_id r = recommendation_id
                            then r\<lparr>rec_text := new_recommendation\<rparr> else r)
                      (sleep_recommendations d)\<rparr>
      in if rowcount = 0
         then (Inl (HTTPException 404 (Text ''Recommendation not found'')), d)
         else (Inr (message ''Recommendation updated successfully''), d1))"

definition update_recommendation :: "int \<Rightarrow> string \<Rightarrow> db \<Rightarrow> result \<times> db" where
  "update_recommendation recommendation_id new_recommendation d =
     except_500 ErrorStr (update_recommendation_body recommendation_id new_recommendation d)"

text \<open>
  \<open>delete_recommendation\<close>: as \<open>delete_sleep_log\<close>, with column 1 of the fetched row and
  the row count compared before the commit.
\<close>

definition delete_recommendation_body :: "int \<Rightarrow> db \<Rightarrow> result \<times> db" where
  "delete_recommendation_body recommendation_id d =
     (case find (\<lambda>r. rec_id r = recommendation_id) (sleep_recommendations d) of
        None \<Rightarrow> (Inl TypeError, d)
      | Some rec \<Rightarrow>
          (let d1 = d\<lparr>recommendation_history := recommendation_history d @ [rec_text rec]\<rparr>;
               rowcount = length (filter (\<lambda>r. rec_id r = recommendation_id)
                                    (sleep_recommendations d1));
               d2 = d1\<lparr>sleep_recommendations :=
                       filter (\<lambda>r. rec_id r \<noteq> recommendation_id) (sleep_recommendations d1)\<rparr>
           in if rowcount = 0
              then (Inl (HTTPException 404 (Text ''Recommendation not found'')), d)
              else (Inr (message ''Recommendation deleted successfully''), d2)))"

definition delete_recommendation :: "int \<Rightarrow> db \<Rightarrow> result \<times> db" where
  "delete_recommendation recommendation_id d =
     except_500 ErrorStr (delete_recommendation_body recommendation_id d)"

section \<open>Routing\<close>

text \<open>
  The decorators register the routes in the order of the source. The framework answers a
  request with the first route whose method and path both match; \<open>{name}\<close> in a path
  matches one non-empty segment without a slash.
\<close>

datatype http_method = GET | POST | PUT | DELETE

datatype endpoint =
  Add_sleep_log
  | Get_all_sleep_logs
  | Get_sleep_logs_by_date
  | Update_sleep_log
  | Delete_sleep_log
  | Get_average_sleep_duration
  | Get_frequent_sleep_time
  | Get_frequent_wake_time
  | Get_longest_sleep_duration
  | Get_shortest_sleep_duration
  | Get_sleep_logs_by_month
  | Get_sleep_logs_by_year
  | Set_monthly_sleep_goal
  | Get_daily_sleep_summary
  | Get_history
  | Add_recommendations
  | Recommendation_list
  | Update_recommendation
  | Delete_recommendation
  | Get_recommendation_history

definition routes :: "(http_method \<times> string \<times> endpoint) list" where
  "routes =
     [(POST, ''/sleep_logs'', Add_sleep_log),
      (GET, ''/sleep_logs'', Get_all_sleep_logs),
      (GET, ''/sleep_logs/{date}'', Get_sleep_logs_by_date),
      (PUT, ''/sleep_logs/{log_id}'', Update_sleep_log),
      (DELETE, ''/sleep_logs/{log_id}'', Delete_sleep_log),
      (GET, ''/sleep_logs/average_duration'', Get_average_sleep_duration),
      (GET, ''/sleep_logs/frequent_sleep_time'', Get_frequent_sleep_time),
      (GET, ''/sleep_logs/frequent_wake_time'', Get_frequent_wake_time),
      (GET, ''/sleep_logs/longest_sleep'', Get_longest_sleep_duration),
      (GET, ''/sleep_logs/shortest_sleep'', Get_shortest_sleep_duration),
      (GET, ''/sleep_logs/month/{year}/{month}'', Get_sleep_logs_by_month),
      (GET, ''/sleep_logs/year/{year}'', Get_sleep_logs_by_year),
      (POST, ''/sleep_goals/monthly_sleep_goal'', Set_monthly_sleep_goal),
      (GET, ''/sleep_logs/summary/{date}'', Get_daily_sleep_summary),
      (GET, ''sleep_logs/history'', Get_history),
      (POST, ''/recommendations'', Add_recommendations),
      (GET, ''/recommendations'', Recommendation_list),
      (PUT, ''/recommendations/{recommendation_id}'', Update_recommendation),
      (DELETE, ''/recommendations/{recommendation_id}'', Delete_recommendation),
      (GET, ''/recommendations/history'', Get_recommendation_history)]"

fun segments :: "string \<Rightarrow> string list" where
  "segments [] = [[]]"
| "segments (c # cs) =
     (if c = CHR ''/'' then [] # segments cs
      else (case segments cs of [] \<Rightarrow> [[c]] | s # ss \<Rightarrow> (c # s) # ss))"

definition is_param :: "string \<Rightarrow> bool" where
  "is_param s = (2 \<le> length s \<and> hd s = CHR ''{'' \<and> last s = CHR ''}'')"

definition param_name :: "string \<Rightarrow> string" where
  "param_name s = butlast (tl s)"

fun match_segments :: "string list \<Rightarrow> string list \<Rightarrow> (string \<times> string) list option" where
  "match_segments [] [] = Some []"
| "match_segments (p # ps) (s # ss) =
     (if is_param p
      then (if s = [] then None
            else map_option (\<lambda>b. (param_name p, s) # b) (match_segments ps ss))
      else if p = s then match_segments ps ss else None)"
| "match_segments _ _ = None"

definition match_path :: "string \<Rightarrow> string \<Rightarrow> (string \<times> string) list option" where
  "match_path pattern path = match_segments (segments pattern) (segments path)"

fun dispatch_in ::
  "(http_method \<times> string \<times> endpoint) list \<Rightarrow> http_method \<Rightarrow> string
     \<Rightarrow> (endpoint \<times> (string \<times> string) list) option" where
  "dispatch_in [] m path = None"
| "dispatch_in ((m', pattern, e) # rs) m path =
     (if m' = m
      then (case match_path pattern path of
              Some b \<Rightarrow> Some (e, b)
            | None \<Rightarrow> dispatch_in rs m path)
      else dispatch_in rs m path)"

definition dispatch :: "http_method \<Rightarrow> string \<Rightarrow> (endpoint \<times> (string \<times> string) list) option" where
  "dispatch m path = dispatch_in routes m path"

section \<open>Instances for concrete evaluation\<close>

text \<open>
  A parser and an SQL \<open>strftime\<close> to run the handlers on concrete requests. Both read the
  texts of exactly the shape \<open>YYYY-MM-DD HH:MM\<close> (four, two, two, two and two digits) that
  denote a date and a time of day; the library's parser and the engine read these texts
  the same way, and further texts that the instances do not.
\<close>

definition digit_val :: "char \<Rightarrow> int option" where
  "digit_val c =
     (let n = (of_char c :: nat) in if 48 \<le> n \<and> n \<le> 57 then Some (int n - 48) else None)"

fun number :: "int \<Rightarrow> string \<Rightarrow> int option" where
  "number acc [] = Some acc"
| "number acc (c # cs) =
     (case digit_val c of None \<Rightarrow> None | Some v \<Rightarrow> number (acc * 10 + v) cs)"

definition strptime_strict :: parser where
  "strptime_strict s =
     (if length s = 16 \<and> s ! 4 = CHR ''-'' \<and> s ! 7 = CHR ''-'' \<and> s ! 10 = CHR '' ''
         \<and> s ! 13 = CHR '':''
      then
        (case (number 0 (take 4 s), number 0 (take 2 (drop 5 s)), number 0 (take 2 (drop 8 s)),
               number 0 (take 2 (drop 11 s)), number 0 (take 2 (drop 14 s))) of
           (Some y, Some m, Some d, Some h, Some mi) \<Rightarrow>
             (if 1 \<le> y \<and> 1 \<le> m \<and> m \<le> 12 \<and> 1 \<le> d \<and> d \<le> days_in_month y m
                 \<and> h \<le> 23 \<and> mi \<le> 59
              then Some \<lparr>dt_year = y, dt_month = m, dt_day = d, dt_hour = h, dt_minute = mi\<rparr>
              else None)
         | _ \<Rightarrow> None)
      else None)"

definition strftime_strict :: sql_strftime where
  "strftime_strict fmt s =
     (case strptime_strict s of
        None \<Rightarrow> None
      | Some t \<Rightarrow>
          if fmt = ''%Y'' then Some (take 4 s)
          else if fmt = ''%m'' then Some (take 2 (drop 5 s))
          else if fmt = ''%H'' then Some (take 2 (drop 11 s))
          else None)"

definition empty_db :: db where
  "empty_db = \<lparr>sleep_logs = [], history = [], sleep_recommendations = [],
                recommendation_history = []\<rparr>"

text \<open>One night in May 2024 and twenty-five nights of eight hours in February 2024.\<close>

definition may_log :: sleep_logs_row where
  "may_log = \<lparr>col_id = 1, col_sleep_time = ''2024-05-01 22:00'',
               col_wake_time = ''2024-05-02 06:00'', col_duration = 8\<rparr>"


definition may_db :: db where
  "may_db = empty_db\<lparr>sleep_logs := [may_log]\<rparr>"


text \<open>A request whose client-supplied duration (99) is not the 7.5 hours of its timestamps.\<close>

definition late_request :: SleepLog where
  "late_request = \<lparr>sleep_time = ''2024-05-01 22:30'', wake_time = ''2024-05-02 06:00'',
                    duration = 99\<rparr>"



definition bad_request :: SleepLog where
  "bad_request = \<lparr>sleep_time = ''bedtime'', wake_time = ''2024-05-02 06:00'', duration = 8\<rparr>"


section \<open>Predicates used in the statements\<close>





text \<open>
  The total the monthly goal compares with the required hours: \<open>SUM(duration)\<close> of the
  logs of the month, or 0.
\<close>

definition total_logged_sleep :: "sql_strftime \<Rightarrow> SleepGoal \<Rightarrow> db \<Rightarrow> rat" where
  "total_logged_sleep strftime goal d =
     or_0_value (sql_sum (map col_duration
        (logged_in_month strftime (year goal) (month goal) d)))"

section \<open>Properties\<close>

subsection \<open>Helper lemmas\<close>

lemma like_percent: "like ''%'' s"
  by (induction s) auto

lemma like_append_percent: "like (p @ q) s \<Longrightarrow> like (p @ ''%'') s"
proof (induction p s rule: like.induct)
  case (1 s)
  then show ?case by (simp add: like_percent)
next
  case (2 c p)
  then show ?case by auto
next
  case (3 c p x s)
  then show ?case by (auto split: if_splits)
qed

lemma find_None_image: "i \<notin> f ` set xs \<Longrightarrow> find (\<lambda>r. f r = i) xs = None"
  by (induction xs) auto

subsection \<open>Monthly goal\<close>

text \<open>
  C1. The claim: for every year and every month from 1 to 12 the monthly goal evaluation
  computes the number of days of the month and returns the required total; in
  particular it succeeds for month 12. The handler builds the first day of month + 1 of
  the same year, so for month 12 it asks for month 13 and the constructor raises
  ValueError, whatever the year, the hours and the database: the evaluation of a
  December goal never returns a total.
\<close>

theorem december_goal_raises:
  "set_monthly_sleep_goal strftime \<lparr>year = y, month = 12, hours_per_night = h\<rparr> d
     = Inl ValueError"
  by (simp add: set_monthly_sleep_goal_def goal_days_in_month_def datetime_new_def)

subsection \<open>Deleting an id that is not in the table\<close>

text \<open>
  C3. Deleting a sleep log or a recommendation whose id is not in its table: the fetch
  gives no row, reading the columns of the absent row for the history INSERT raises
  TypeError, and the handler answers with the 500 built from that TypeError; the row
  count is never compared with 0. The database (live tables and history tables) is the
  one before the request.
\<close>

theorem delete_missing_id_fails_at_history_copy:
  assumes "log_id \<notin> col_id ` set (sleep_logs d)"
      and "recommendation_id \<notin> rec_id ` set (sleep_recommendations d)"
  shows "delete_sleep_log log_id d = (Inl (HTTPException 500 (Str TypeError)), d)
       \<and> delete_recommendation recommendation_id d
           = (Inl (HTTPException 500 (ErrorStr TypeError)), d)"
  using assms
  by (simp add: delete_sleep_log_def delete_sleep_log_body_def delete_recommendation_def
      delete_recommendation_body_def except_500_def find_None_image)

theorem delete_missing_id_fails_at_history_copy_witness:
  "9999 \<notin> col_id ` set (sleep_logs may_db)
   \<and> 9999 \<notin> rec_id ` set (sleep_recommendations may_db)
   \<and> delete_sleep_log 9999 may_db = (Inl (HTTPException 500 (Str TypeError)), may_db)
   \<and> delete_recommendation 9999 may_db
       = (Inl (HTTPException 500 (ErrorStr TypeError)), may_db)"
proof -
  have h1: "9999 \<notin> col_id ` set (sleep_logs may_db)"
    by (simp add: may_db_def may_log_def empty_db_def)
  have h2: "9999 \<notin> rec_id ` set (sleep_recommendations may_db)"
    by (simp add: may_db_def empty_db_def)
  show ?thesis
    using h1 h2 delete_missing_id_fails_at_history_copy [OF h1 h2] by simp
qed

subsection \<open>Reading by date prefix\<close>

text \<open>
  C9. Date-prefix queries are monotonic in specificity: for every database and all texts
  \<open>p\<close> and \<open>s\<close>, every row that the read by date returns for the prefix \<open>p @ s\<close> is also
  returned for the prefix \<open>p\<close>.
\<close>

theorem date_prefix_monotonic:
  "set (select_by_date (p @ s) d) \<subseteq> set (select_by_date p d)
   \<and> (\<exists>qs ps. get_sleep_logs_by_date (p @ s) d = Inr (JList qs)
          \<and> get_sleep_logs_by_date p d = Inr (JList ps) \<and> set qs \<subseteq> set ps)"
proof -
  have sub: "set (select_by_date (p @ s) d) \<subseteq> set (select_by_date p d)"
    using like_append_percent [of p "s @ ''%''"] by (auto simp: select_by_date_def)
  then have "set (map dict_log (select_by_date (p @ s) d))
               \<subseteq> set (map dict_log (select_by_date p d))"
    by auto
  with sub show ?thesis
    by (simp add: get_sleep_logs_by_date_def)
qed

subsection \<open>Evaluations of the instances\<close>





lemma parse_bedtime: "strptime_strict ''bedtime'' = None"
  by code_simp

subsection \<open>The stored duration\<close>



subsection \<open>A timestamp that does not parse\<close>

text \<open>
  C7, as claimed: a create request with a timestamp that does not parse fails with a
  validation error reported as a client error. It does not: the ValueError of the parser
  is raised before the \<open>try\<close> and leaves the handler, which the framework answers with
  status 500. The request with \<open>sleep_time = "bedtime"\<close> shows it.
\<close>

theorem unparsable_create_is_not_client_error:
  "strptime_strict (sleep_time bad_request) = None
   \<and> fst (add_sleep_log strptime_strict bad_request empty_db) = Inl ValueError
   \<and> status_code (fst (add_sleep_log strptime_strict bad_request empty_db)) = 500
   \<and> \<not> client_error (fst (add_sleep_log strptime_strict bad_request empty_db))"
  by (simp add: add_sleep_log_def bad_request_def parse_bedtime client_error_def)

text \<open>
  C7, amended: for every create request in which \<open>sleep_time\<close> or \<open>wake_time\<close> does not
  parse, the create operation fails with the parser's ValueError, which is not handled
  and is answered as a server error (status 500), and no row is inserted: the database
  is unchanged.
\<close>

theorem unparsable_create_raises_value_error:
  assumes "strptime (sleep_time lg) = None \<or> strptime (wake_time lg) = None"
  shows "add_sleep_log strptime lg d = (Inl ValueError, d)
       \<and> status_code (fst (add_sleep_log strptime lg d)) = 500"
  using assms by (auto simp: add_sleep_log_def split: option.splits)

theorem unparsable_create_raises_value_error_witness:
  "(strptime_strict (sleep_time bad_request) = None
      \<or> strptime_strict (wake_time bad_request) = None)
   \<and> add_sleep_log strptime_strict bad_request may_db = (Inl ValueError, may_db)
   \<and> status_code (fst (add_sleep_log strptime_strict bad_request may_db)) = 500"
proof -
  have h: "strptime_strict (sleep_time bad_request) = None
      \<or> strptime_strict (wake_time bad_request) = None"
    by (simp add: bad_request_def parse_bedtime)
  show ?thesis
    using h unparsable_create_raises_value_error [OF h, of may_db] by simp
qed

subsection \<open>Updating an id that is not in the table\<close>

text \<open>
  C4. The claim: an update of a sleep log or of a recommendation with an id that is not in
  the table reports not-found with status 404. Both handlers raise the 404 inside their
  \<open>try\<close>, and \<open>except Exception\<close> catches it and raises a 500 whose detail is the text of
  the caught 404. Updating id 9999 in a database that holds only id 1 gives status 500
  for both; no row is modified.
\<close>

theorem update_missing_id_is_server_error:
  "update_sleep_log strptime_strict 9999 late_request may_db
     = (Inl (HTTPException 500 (Str (HTTPException 404 (Text ''Sleep log not found'')))), may_db)
   \<and> update_recommendation 9999 ''Sleep earlier'' may_db
     = (Inl (HTTPException 500
              (ErrorStr (HTTPException 404 (Text ''Recommendation not found'')))), may_db)
   \<and> status_code (fst (update_sleep_log strptime_strict 9999 late_request may_db)) = 500
   \<and> status_code (fst (update_recommendation 9999 ''Sleep earlier'' may_db)) = 500"
  by (simp add: update_sleep_log_def update_sleep_log_body_def update_recommendation_def
      update_recommendation_body_def except_500_def may_db_def may_log_def empty_db_def)

text \<open>The same for every database and every id that is not in the table.\<close>

lemma update_missing_id_general:
  assumes "log_id \<notin> col_id ` set (sleep_logs d)"
      and "recommendation_id \<notin> rec_id ` set (sleep_recommendations d)"
  shows "update_sleep_log strptime log_id lg d
     = (Inl (HTTPException 500 (Str (HTTPException 404 (Text ''Sleep log not found'')))), d)
   \<and> update_recommendation recommendation_id new_recommendation d
     = (Inl (HTTPException 500
              (ErrorStr (HTTPException 404 (Text ''Recommendation not found'')))), d)"
proof -
  have "filter (\<lambda>r. rec_id r = recommendation_id) (sleep_recommendations d) = []"
    using assms(2) by (auto simp: filter_empty_conv)
  then show ?thesis
    using assms(1)
    by (simp add: update_sleep_log_def update_sleep_log_body_def update_recommendation_def
        update_recommendation_body_def except_500_def find_None_image)
qed

subsection \<open>Deleting a sleep log\<close>

lemma find_Some_mem: "find P xs = Some r \<Longrightarrow> r \<in> set xs \<and> P r"
  by (induction xs) (auto split: if_splits)

lemma filter_distinct_id_remove1:
  "distinct (map f xs) \<Longrightarrow> r \<in> set xs \<Longrightarrow> filter (\<lambda>x. f x \<noteq> f r) xs = remove1 r xs"
proof (induction xs)
  case Nil
  then show ?case by simp
next
  case (Cons a xs)
  show ?case
  proof (cases "a = r")
    case True
    with Cons.prems have "\<forall>x\<in>set xs. f x \<noteq> f r" by (auto simp: image_iff)
    then have "filter (\<lambda>x. f x \<noteq> f r) xs = xs" by (simp add: filter_id_conv)
    with True show ?thesis by simp
  next
    case False
    with Cons.prems have "r \<in> set xs" and "f a \<noteq> f r" by (auto simp: image_iff)
    with Cons show ?thesis using False by simp
  qed
qed

text \<open>
  C5. Deleting a sleep log whose id is in the table: the handler answers with the success
  message, the history table gains exactly one row, appended, with the \<open>sleep_time\<close>,
  \<open>wake_time\<close> and \<open>duration\<close> of the fetched row \<open>h\<close>, the live table loses the rows with
  this id, and nothing else changes. With ids that are distinct (the id is the key of
  the table) the live table loses exactly the row \<open>h\<close>.
\<close>

theorem delete_moves_row_to_history:
  assumes "find (\<lambda>r. col_id r = log_id) (sleep_logs d) = Some h"
  shows "delete_sleep_log log_id d
           = (Inr (message ''Sleep log deleted successfully!''),
              d\<lparr>history := history d @
                   [\<lparr>hist_sleep_time = col_sleep_time h, hist_wake_time = col_wake_time h,
                     hist_duration = col_duration h\<rparr>],
                sleep_logs := filter (\<lambda>r. col_id r \<noteq> log_id) (sleep_logs d)\<rparr>)
       \<and> h \<in> set (sleep_logs d) \<and> col_id h = log_id
       \<and> (distinct (map col_id (sleep_logs d)) \<longrightarrow>
            filter (\<lambda>r. col_id r \<noteq> log_id) (sleep_logs d) = remove1 h (sleep_logs d))"
proof -
  from assms have mem: "h \<in> set (sleep_logs d)" and hid: "col_id h = log_id"
    using find_Some_mem [of "\<lambda>r. col_id r = log_id" "sleep_logs d" h] by auto
  then have ne: "filter (\<lambda>r. col_id r = log_id) (sleep_logs d) \<noteq> []"
    by (auto simp: filter_empty_conv)
  have del: "delete_sleep_log log_id d
           = (Inr (message ''Sleep log deleted successfully!''),
              d\<lparr>history := history d @
                   [\<lparr>hist_sleep_time = col_sleep_time h, hist_wake_time = col_wake_time h,
                     hist_duration = col_duration h\<rparr>],
                sleep_logs := filter (\<lambda>r. col_id r \<noteq> log_id) (sleep_logs d)\<rparr>)"
    using assms ne
    by (simp add: delete_sleep_log_def delete_sleep_log_body_def except_500_def Let_def)
  have "distinct (map col_id (sleep_logs d)) \<longrightarrow>
            filter (\<lambda>r. col_id r \<noteq> log_id) (sleep_logs d) = remove1 h (sleep_logs d)"
    using filter_distinct_id_remove1 [of col_id "sleep_logs d" h] mem hid by auto
  with del mem hid show ?thesis by blast
qed

theorem delete_moves_row_to_history_witness:
  "find (\<lambda>r. col_id r = 1) (sleep_logs may_db) = Some may_log
   \<and> distinct (map col_id (sleep_logs may_db))
   \<and> delete_sleep_log 1 may_db
       = (Inr (message ''Sleep log deleted successfully!''),
          empty_db\<lparr>history := [\<lparr>hist_sleep_time = ''2024-05-01 22:00'',
                                 hist_wake_time = ''2024-05-02 06:00'', hist_duration = 8\<rparr>]\<rparr>)"
proof -
  have h: "find (\<lambda>r. col_id r = 1) (sleep_logs may_db) = Some may_log"
    by (simp add: may_db_def may_log_def empty_db_def)
  have dis: "distinct (map col_id (sleep_logs may_db))"
    by (simp add: may_db_def empty_db_def)
  have "delete_sleep_log 1 may_db
       = (Inr (message ''Sleep log deleted successfully!''),
          may_db\<lparr>history := history may_db @
                   [\<lparr>hist_sleep_time = col_sleep_time may_log,
                     hist_wake_time = col_wake_time may_log,
                     hist_duration = col_duration may_log\<rparr>],
                sleep_logs := remove1 may_log (sleep_logs may_db)\<rparr>)"
    using delete_moves_row_to_history [OF h] dis by simp
  then have "delete_sleep_log 1 may_db
       = (Inr (message ''Sleep log deleted successfully!''),
          empty_db\<lparr>history := [\<lparr>hist_sleep_time = ''2024-05-01 22:00'',
                                 hist_wake_time = ''2024-05-02 06:00'', hist_duration = 8\<rparr>]\<rparr>)"
    by (simp add: may_db_def may_log_def empty_db_def)
  with h dis show ?thesis by blast
qed

subsection \<open>The literal aggregate paths\<close>

text \<open>
  C6. The claim: a GET of the literal path \<open>/sleep_logs/average_duration\<close> is answered by
  the average-duration operation, and likewise the other literal aggregate paths. The
  route \<open>/sleep_logs/{date}\<close> is registered before them and matches each of these paths,
  so the read by date answers, with the last segment as the date prefix. On the database
  with one log of 8 hours the request gets the empty list, where the average-duration
  operation would give 8.
\<close>

theorem aggregate_routes_shadowed:
  "dispatch GET ''/sleep_logs/average_duration''
     = Some (Get_sleep_logs_by_date, [(''date'', ''average_duration'')])
   \<and> dispatch GET ''/sleep_logs/frequent_sleep_time''
     = Some (Get_sleep_logs_by_date, [(''date'', ''frequent_sleep_time'')])
   \<and> dispatch GET ''/sleep_logs/frequent_wake_time''
     = Some (Get_sleep_logs_by_date, [(''date'', ''frequent_wake_time'')])
   \<and> dispatch GET ''/sleep_logs/longest_sleep''
     = Some (Get_sleep_logs_by_date, [(''date'', ''longest_sleep'')])
   \<and> dispatch GET ''/sleep_logs/shortest_sleep''
     = Some (Get_sleep_logs_by_date, [(''date'', ''shortest_sleep'')])
   \<and> get_sleep_logs_by_date ''average_duration'' may_db = Inr (JList [])
   \<and> get_average_sleep_duration may_db = Inr (JObj [(''average_sleep_duration'', JNum 8)])"
  by code_simp

subsection \<open>The most frequent hour of an empty table\<close>

text \<open>
  C10. With an empty \<open>sleep_logs\<close> table the frequent-sleep-hour and frequent-wake-hour
  operations return no result object: the grouped query has no row, the field access on
  the absent row raises TypeError, and the exception leaves the handler (status 500).
  The average, longest and shortest operations return 0 on the same table.
\<close>

theorem frequent_hour_on_empty_table:
  assumes "sleep_logs d = []"
  shows "get_frequent_sleep_time strftime d = Inl TypeError
       \<and> get_frequent_wake_time strftime d = Inl TypeError
       \<and> status_code (get_frequent_sleep_time strftime d) = 500
       \<and> status_code (get_frequent_wake_time strftime d) = 500
       \<and> get_average_sleep_duration d = Inr (JObj [(''average_sleep_duration'', JInt 0)])
       \<and> get_longest_sleep_duration d = Inr (JObj [(''longest_sleep_duration'', JInt 0)])
       \<and> get_shortest_sleep_duration d = Inr (JObj [(''shortest_sleep_duration'', JInt 0)])"
  using assms
  by (simp add: get_frequent_sleep_time_def get_frequent_wake_time_def group_count_def
      get_average_sleep_duration_def get_longest_sleep_duration_def
      get_shortest_sleep_duration_def sql_avg_def sql_max_def sql_min_def or_0_def)

theorem frequent_hour_on_empty_table_witness:
  "sleep_logs empty_db = []
   \<and> get_frequent_sleep_time strftime_strict empty_db = Inl TypeError
   \<and> get_frequent_wake_time strftime_strict empty_db = Inl TypeError
   \<and> get_average_sleep_duration empty_db = Inr (JObj [(''average_sleep_duration'', JInt 0)])"
proof -
  have h: "sleep_logs empty_db = []" by (simp add: empty_db_def)
  show ?thesis
    using h frequent_hour_on_empty_table [OF h, of strftime_strict] by simp
qed

subsection \<open>The shortfall message\<close>























end
